theory Spec2Isabelle
  imports Main
begin

section \<open>Precinct lookup (ArcgisJP.py): a shallow embedding\<close>

text \<open>
  The program reads four entry fields, geocodes the composed address, queries one ArcGIS
  feature service with the point, and shows the first feature's attributes in a dialog.
  The two functions with logic, \<open>query_precinct\<close> and \<open>get_precinct_info\<close>, are
  embedded below. The geocoder and the HTTP client are the environment: they are
  parameters of the model (a record of two functions), and every call made to them is
  recorded in a trace, so that "no network call is made" is a statement about the trace.
  The \<open>logging\<close> calls write to stderr and never change control flow; they are left out.

  A Python \<open>str\<close> is a \<open>string\<close> whose characters are read as code points below 256.
\<close>

subsection \<open>Python values\<close>

text \<open>
  What \<open>response.json()\<close> can return. A float is kept as the text \<open>repr\<close> prints for it
  (\<open>repr\<close> of a float determines the float); a dict is the list of its items, looked up
  with \<open>map_of\<close>.
\<close>

datatype json =
    JNull
  | JBool bool
  | JInt int
  | JFloat string
  | JStr string
  | JList "json list"
  | JObj "(string \<times> json) list"

text \<open>The exceptions the two functions can raise or let through.\<close>

datatype pyexn =
    ValueError string
  | AttributeError
  | TypeError
  | KeyError
  | IndexError

text \<open>Truth value testing, as \<open>not x\<close>, \<open>filter(None, ...)\<close> and \<open>if x\<close> use it.\<close>

fun truthy :: "json \<Rightarrow> bool" where
  "truthy JNull = False"
| "truthy (JBool b) = b"
| "truthy (JInt i) = (i \<noteq> 0)"
| "truthy (JFloat r) = (r \<noteq> ''0.0'' \<and> r \<noteq> ''-0.0'')"
| "truthy (JStr s) = (s \<noteq> [])"
| "truthy (JList xs) = (xs \<noteq> [])"
| "truthy (JObj kvs) = (kvs \<noteq> [])"

fun is_None :: "json \<Rightarrow> bool" where
  "is_None JNull = True"
| "is_None _ = False"

fun is_str :: "json \<Rightarrow> bool" where
  "is_str (JStr s) = True"
| "is_str _ = False"

fun the_str :: "json \<Rightarrow> string" where
  "the_str (JStr s) = s"
| "the_str _ = []"

text \<open>\<open>d.get(key, default)\<close> on a dict.\<close>

definition py_get :: "(string \<times> json) list \<Rightarrow> string \<Rightarrow> json \<Rightarrow> json" where
  "py_get d key dflt = (case map_of d key of None \<Rightarrow> dflt | Some v \<Rightarrow> v)"

subsection \<open>Strings: strip, join, str and repr\<close>

text \<open>
  \<open>str.strip()\<close> removes the characters for which \<open>str.isspace\<close> holds from both ends.
  Below 256 these are the code points 9 to 13, 28 to 32, 133 and 160.
\<close>

definition py_isspace :: "char \<Rightarrow> bool" where
  "py_isspace c =
     (let n = (of_char c :: nat)
      in (9 \<le> n \<and> n \<le> 13) \<or> (28 \<le> n \<and> n \<le> 32) \<or> n = 133 \<or> n = 160)"

definition py_strip :: "string \<Rightarrow> string" where
  "py_strip s = rev (dropWhile py_isspace (rev (dropWhile py_isspace s)))"

text \<open>\<open>sep.join(items)\<close> on strings.\<close>

fun join_strs :: "string \<Rightarrow> string list \<Rightarrow> string" where
  "join_strs sep [] = []"
| "join_strs sep [x] = x"
| "join_strs sep (x # y # ys) = x @ sep @ join_strs sep (y # ys)"

text \<open>\<open>sep.join(items)\<close> on arbitrary values: a \<open>TypeError\<close> unless every item is a \<open>str\<close>.\<close>

definition py_join :: "string \<Rightarrow> json list \<Rightarrow> pyexn + string" where
  "py_join sep items =
     (if list_all is_str items then Inr (join_strs sep (map the_str items))
      else Inl TypeError)"

text \<open>Decimal digits of an \<open>int\<close>, as \<open>str\<close> prints them.\<close>

definition dec_digit :: "nat \<Rightarrow> char" where
  "dec_digit n = ''0123456789'' ! (n mod 10)"

fun str_nat :: "nat \<Rightarrow> string" where
  "str_nat n = (if n < 10 then [dec_digit n] else str_nat (n div 10) @ [dec_digit n])"

declare str_nat.simps [simp del]

definition str_int :: "int \<Rightarrow> string" where
  "str_int i = (if i < 0 then ''-'' @ str_nat (nat (- i)) else str_nat (nat i))"

text \<open>
  \<open>repr\<close> of a \<open>str\<close>: single quotes unless the text has a single quote and no double
  quote; the quote and the backslash are escaped, tab, newline and carriage return are
  written \<open>\t\<close>, \<open>\n\<close>, \<open>\r\<close>, and each other non-printable code point (below 32, 127 to
  160, and 173) as \<open>\xNN\<close>.
\<close>

definition hex_digit :: "nat \<Rightarrow> char" where
  "hex_digit n = ''0123456789abcdef'' ! (n mod 16)"

definition repr_char :: "char \<Rightarrow> char \<Rightarrow> string" where
  "repr_char quote c =
     (let n = (of_char c :: nat)
      in if c = quote \<or> c = CHR 0x5C then [CHR 0x5C, c]
         else if n = 9 then [CHR 0x5C, CHR ''t'']
         else if n = 10 then [CHR 0x5C, CHR ''n'']
         else if n = 13 then [CHR 0x5C, CHR ''r'']
         else if n < 32 \<or> (127 \<le> n \<and> n \<le> 160) \<or> n = 173
           then [CHR 0x5C, CHR ''x'', hex_digit (n div 16), hex_digit n]
         else [c])"

definition repr_str :: "string \<Rightarrow> string" where
  "repr_str s =
     (let quote = (if CHR 0x27 \<in> set s \<and> CHR 0x22 \<notin> set s then CHR 0x22 else CHR 0x27)
      in [quote] @ concat (map (repr_char quote) s) @ [quote])"

fun py_repr :: "json \<Rightarrow> string" where
  "py_repr JNull = ''None''"
| "py_repr (JBool b) = (if b then ''True'' else ''False'')"
| "py_repr (JInt i) = str_int i"
| "py_repr (JFloat r) = r"
| "py_repr (JStr s) = repr_str s"
| "py_repr (JList xs) = ''['' @ join_strs '', '' (map py_repr xs) @ '']''"
| "py_repr (JObj kvs) =
     ''{'' @ join_strs '', '' (map (\<lambda>kv. repr_str (fst kv) @ '': '' @ py_repr (snd kv)) kvs) @ ''}''"

text \<open>
  What an f-string writes for \<open>{x}\<close>, which is \<open>str(x)\<close> for these types: a \<open>str\<close> is
  itself, everything else is its \<open>repr\<close>.
\<close>

fun py_str :: "json \<Rightarrow> string" where
  "py_str (JStr s) = s"
| "py_str v = py_repr v"

subsection \<open>Subscripts\<close>

text \<open>
  \<open>x[0]\<close>: the first item of a list, the first character of a \<open>str\<close>; a dict made
  from JSON has only \<open>str\<close> keys, so \<open>0\<close> is never one of them; the other types are not
  subscriptable.
\<close>

fun py_item0 :: "json \<Rightarrow> pyexn + json" where
  "py_item0 (JList []) = Inl IndexError"
| "py_item0 (JList (x # xs)) = Inr x"
| "py_item0 (JStr []) = Inl IndexError"
| "py_item0 (JStr (c # s)) = Inr (JStr [c])"
| "py_item0 (JObj kvs) = Inl KeyError"
| "py_item0 _ = Inl TypeError"

text \<open>\<open>x[key]\<close> with a \<open>str\<close> key: only a dict takes one.\<close>

fun py_item :: "json \<Rightarrow> string \<Rightarrow> pyexn + json" where
  "py_item (JObj kvs) key = (case map_of kvs key of None \<Rightarrow> Inl KeyError | Some v \<Rightarrow> Inr v)"
| "py_item _ key = Inl TypeError"

subsection \<open>The environment: geocoder and HTTP client\<close>

text \<open>
  \<open>geolocator.geocode(full_address)\<close> raises \<open>GeocoderServiceError\<close>, returns \<open>None\<close>,
  or returns a location with two floats (kept as their \<open>repr\<close> text).
  \<open>requests.get\<close>, \<open>raise_for_status\<close> and \<open>response.json()\<close> together either raise a
  \<open>RequestException\<close> or give the parsed body.
\<close>

record location =
  latitude :: string
  longitude :: string

datatype geocode_outcome =
    GeocoderServiceError string
  | Geocoded "location option"

datatype http_outcome =
    RequestException string
  | ResponseJson json

record world =
  geocode :: "string \<Rightarrow> geocode_outcome"
  requests_get :: "string \<Rightarrow> (string \<times> string) list \<Rightarrow> http_outcome"

datatype call =
    GeocodeCall string
  | HttpGetCall string "(string \<times> string) list"

subsection \<open>\<open>query_precinct\<close>\<close>

definition full_address :: "string \<Rightarrow> string \<Rightarrow> string \<Rightarrow> string \<Rightarrow> string" where
  "full_address street_address city state zip_code =
     street_address @ '', '' @ city @ '', '' @ state @ '' '' @ zip_code"

definition arcgis_url :: string where
  "arcgis_url =
     ''https://services1.arcgis.com/Z3qsB1OAIjFLs23T/ArcGIS/rest/services/'' @
     ''JP_Precincts_20181129/FeatureServer/0/query''"

definition params :: "location \<Rightarrow> (string \<times> string) list" where
  "params loc =
     [(''f'', ''json''),
      (''geometryType'', ''esriGeometryPoint''),
      (''geometry'', ''{x:'' @ longitude loc @ '',y:'' @ latitude loc @ ''}''),
      (''spatialRel'', ''esriSpatialRelIntersects''),
      (''inSR'', ''4326''),
      (''outFields'', ''*''),
      (''returnGeometry'', ''false''),
      (''outSR'', ''4326'')]"

text \<open>
  Lines 82 to 87: \<open>data.get("features", [])\<close> needs a dict (nothing else that JSON gives
  has \<open>get\<close>), an empty or otherwise false \<open>features\<close> is "No precinct found.", and
  \<open>features[0]["attributes"]\<close> is returned.
\<close>

definition first_attributes :: "json \<Rightarrow> pyexn + json" where
  "first_attributes data =
     (case data of
        JObj d \<Rightarrow>
          (let features = py_get d ''features'' (JList [])
           in if truthy features
              then (case py_item0 features of
                      Inl e \<Rightarrow> Inl e
                    | Inr feature \<Rightarrow> py_item feature ''attributes'')
              else Inl (ValueError ''No precinct found.''))
      | _ \<Rightarrow> Inl AttributeError)"

definition query_precinct ::
  "world \<Rightarrow> string \<Rightarrow> string \<Rightarrow> string \<Rightarrow> string \<Rightarrow> call list \<times> (pyexn + json)" where
  "query_precinct w street_address city state zip_code =
     (let addr = full_address street_address city state zip_code
      in case geocode w addr of
           GeocoderServiceError e \<Rightarrow>
             ([GeocodeCall addr], Inl (ValueError (''Geocoding error: '' @ e)))
         | Geocoded None \<Rightarrow>
             ([GeocodeCall addr], Inl (ValueError ''Address could not be geocoded.''))
         | Geocoded (Some loc) \<Rightarrow>
             (let calls = [GeocodeCall addr, HttpGetCall arcgis_url (params loc)]
              in case requests_get w arcgis_url (params loc) of
                   RequestException e \<Rightarrow>
                     (calls, Inl (ValueError (''Error querying ArcGIS: '' @ e)))
                 | ResponseJson data \<Rightarrow> (calls, first_attributes data)))"

subsection \<open>\<open>get_precinct_info\<close>: the formatter (lines 113 to 139)\<close>

text \<open>Each local variable of the source is a function of the attributes dict.\<close>

definition precinct_number :: "(string \<times> json) list \<Rightarrow> json" where
  "precinct_number precinct_info = py_get precinct_info ''PRECINCT'' JNull"

definition judge_full_name :: "(string \<times> json) list \<Rightarrow> pyexn + string" where
  "judge_full_name precinct_info =
     (case py_join '' ''
             (filter truthy
                [py_get precinct_info ''TITLE1'' (JStr []),
                 py_get precinct_info ''FIRSTNAME1'' (JStr []),
                 py_get precinct_info ''LASTNAME1'' (JStr [])]) of
        Inl e \<Rightarrow> Inl e
      | Inr joined \<Rightarrow> Inr (py_strip joined))"

definition address_line :: "(string \<times> json) list \<Rightarrow> json" where
  "address_line precinct_info = py_get precinct_info ''ADDRESS1'' (JStr ''Address Not Found'')"

definition city_arc :: "(string \<times> json) list \<Rightarrow> json" where
  "city_arc precinct_info = py_get precinct_info ''CITY1'' (JStr ''City Not Found'')"

definition state_arc :: "(string \<times> json) list \<Rightarrow> json" where
  "state_arc precinct_info = py_get precinct_info ''STATE1'' (JStr ''State Not Found'')"

definition zip_arc :: "(string \<times> json) list \<Rightarrow> json" where
  "zip_arc precinct_info = py_get precinct_info ''ZIP1'' (JStr ''ZIP Not Found'')"

definition phone :: "(string \<times> json) list \<Rightarrow> json" where
  "phone precinct_info = py_get precinct_info ''TEL1'' (JStr ''Phone Not Found'')"

definition website :: "(string \<times> json) list \<Rightarrow> string" where
  "website precinct_info =
     (if is_None (precinct_number precinct_info) then ''Website Not Found''
      else ''https://www.dallascounty.org/government/jpcourts/'' @
           py_str (precinct_number precinct_info) @ ''/'')"

text \<open>The five lines of the f-string, with the text of each of its eight slots.\<close>

definition summary ::
  "string \<Rightarrow> string \<Rightarrow> string \<Rightarrow> string \<Rightarrow> string \<Rightarrow> string \<Rightarrow> string \<Rightarrow> string \<Rightarrow> string" where
  "summary number judge address city state zipc tel site =
     ''Precinct Number: '' @ number @ ''\<newline>'' @
     ''Judge: '' @ judge @ ''\<newline>'' @
     ''Address: '' @ address @ '', '' @ city @ '', '' @ state @ '' '' @ zipc @ ''\<newline>'' @
     ''Phone: '' @ tel @ ''\<newline>'' @
     ''Website: '' @ site"

text \<open>The two slots that the f-string fills with a conditional expression.\<close>

definition precinct_text :: "(string \<times> json) list \<Rightarrow> string" where
  "precinct_text precinct_info =
     (if is_None (precinct_number precinct_info) then ''Not Found''
      else py_str (precinct_number precinct_info))"

definition judge_text :: "string \<Rightarrow> string" where
  "judge_text name = (if name = [] then ''Not Found'' else name)"

definition results :: "(string \<times> json) list \<Rightarrow> pyexn + string" where
  "results precinct_info =
     (case judge_full_name precinct_info of
        Inl e \<Rightarrow> Inl e
      | Inr name \<Rightarrow>
          Inr (summary
                 (precinct_text precinct_info)
                 (judge_text name)
                 (py_str (address_line precinct_info))
                 (py_str (city_arc precinct_info))
                 (py_str (state_arc precinct_info))
                 (py_str (zip_arc precinct_info))
                 (py_str (phone precinct_info))
                 (website precinct_info)))"

text \<open>\<open>precinct_info.get\<close> needs a dict: any other value has no \<open>get\<close>.\<close>

definition format_info :: "json \<Rightarrow> pyexn + string" where
  "format_info precinct_info =
     (case precinct_info of
        JObj d \<Rightarrow> results d
      | _ \<Rightarrow> Inl AttributeError)"

subsection \<open>\<open>get_precinct_info\<close>: the controller\<close>

text \<open>
  The four entry widgets hold the input. The handler ends in one dialog, or in an
  exception that nothing catches (only \<open>ValueError\<close> from \<open>query_precinct\<close> is caught).
\<close>

record form =
  street_entry :: string
  city_entry :: string
  state_entry :: string
  zip_entry :: string

datatype outcome =
    Showerror string string
  | Showinfo string string
  | Uncaught pyexn

definition get_precinct_info :: "world \<Rightarrow> form \<Rightarrow> call list \<times> outcome" where
  "get_precinct_info w f =
     (let street_address = py_strip (street_entry f);
          city = py_strip (city_entry f);
          state = py_strip (state_entry f);
          zip_code = py_strip (zip_entry f)
      in if street_address = [] \<or> city = [] \<or> state = [] \<or> zip_code = []
         then ([], Showerror ''Input Error'' ''Please fill in all address fields.'')
         else (case query_precinct w street_address city state zip_code of
                 (calls, Inl (ValueError msg)) \<Rightarrow> (calls, Showerror ''Lookup Error'' msg)
               | (calls, Inl e) \<Rightarrow> (calls, Uncaught e)
               | (calls, Inr precinct_info) \<Rightarrow>
                   (case format_info precinct_info of
                      Inl e \<Rightarrow> (calls, Uncaught e)
                    | Inr shown \<Rightarrow> (calls, Showinfo ''Precinct Information'' shown))))"

subsection \<open>Predicates and example data of the statements\<close>

text \<open>A field that is empty or holds only whitespace.\<close>

definition blank :: "string \<Rightarrow> bool" where
  "blank s = list_all py_isspace s"

text \<open>
  Example data: the feature of the specification's example, a form, and an environment
  that gives fixed answers.
\<close>

definition example_attributes :: "(string \<times> json) list" where
  "example_attributes =
     [(''PRECINCT'', JStr ''3''), (''TITLE1'', JStr ''Judge''), (''FIRSTNAME1'', JStr ''Jane''),
      (''LASTNAME1'', JStr ''Doe''), (''ADDRESS1'', JStr ''100 Main St''),
      (''CITY1'', JStr ''Dallas''), (''STATE1'', JStr ''TX''), (''ZIP1'', JStr ''75201''),
      (''TEL1'', JStr ''214-555-0100'')]"

definition mock_world :: "geocode_outcome \<Rightarrow> http_outcome \<Rightarrow> world" where
  "mock_world g h = \<lparr>geocode = (\<lambda>a. g), requests_get = (\<lambda>u p. h)\<rparr>"

definition example_form :: form where
  "example_form =
     \<lparr>street_entry = '' 100 Main St'', city_entry = ''Dallas'', state_entry = ''TX'',
      zip_entry = ''75201 ''\<rparr>"

definition example_location :: location where
  "example_location = \<lparr>latitude = ''32.7767'', longitude = ''-96.797''\<rparr>"

text \<open>Valid input, the address the handler composes from the form, and the call it makes.\<close>

definition valid_form :: "form \<Rightarrow> bool" where
  "valid_form f =
     (\<not> blank (street_entry f) \<and> \<not> blank (city_entry f) \<and>
      \<not> blank (state_entry f) \<and> \<not> blank (zip_entry f))"

definition address_of :: "form \<Rightarrow> string" where
  "address_of f =
     full_address (py_strip (street_entry f)) (py_strip (city_entry f))
       (py_strip (state_entry f)) (py_strip (zip_entry f))"

definition query_of :: "world \<Rightarrow> form \<Rightarrow> call list \<times> (pyexn + json)" where
  "query_of w f =
     query_precinct w (py_strip (street_entry f)) (py_strip (city_entry f))
       (py_strip (state_entry f)) (py_strip (zip_entry f))"

text \<open>More example data: a form with a whitespace-only city, and responses.\<close>

definition blank_city_form :: form where
  "blank_city_form =
     \<lparr>street_entry = ''100 Main St'', city_entry = [CHR '' '', CHR 0x09], state_entry = ''TX'',
      zip_entry = ''75201''\<rparr>"

definition example_response :: "json list \<Rightarrow> http_outcome" where
  "example_response fs = ResponseJson (JObj [(''features'', JList fs)])"

definition second_attributes :: "(string \<times> json) list" where
  "second_attributes = [(''PRECINCT'', JStr ''5''), (''TEL1'', JStr ''214-555-0199'')]"

text \<open>
  A name part can be joined when it is absent, a \<open>str\<close>, or false (so that
  \<open>filter(None, ...)\<close> drops it): \<open>" ".join\<close> raises \<open>TypeError\<close> on anything else.
\<close>

definition joinable :: "(string \<times> json) list \<Rightarrow> string \<Rightarrow> bool" where
  "joinable d k = (case map_of d k of None \<Rightarrow> True | Some v \<Rightarrow> is_str v \<or> \<not> truthy v)"

definition names_joinable :: "(string \<times> json) list \<Rightarrow> bool" where
  "names_joinable d =
     (joinable d ''TITLE1'' \<and> joinable d ''FIRSTNAME1'' \<and> joinable d ''LASTNAME1'')"

text \<open>
  Following the specification's words: the official name is "title + first + last,
  skipping empty parts, space-joined", and the website is the URL
  \<open>https://www.dallascounty.org/government/jpcourts/{precinct_number}/\<close>. A part that is
  absent or not a \<open>str\<close> counts as empty.
\<close>

definition name_part :: "(string \<times> json) list \<Rightarrow> string \<Rightarrow> string" where
  "name_part d k = (case map_of d k of Some (JStr s) \<Rightarrow> s | _ \<Rightarrow> [])"

fun space_join :: "string list \<Rightarrow> string" where
  "space_join [] = []"
| "space_join (p # ps) =
     (if p = [] then space_join ps
      else if space_join ps = [] then p
      else p @ '' '' @ space_join ps)"

definition spec_judge_name :: "(string \<times> json) list \<Rightarrow> string" where
  "spec_judge_name d =
     space_join [name_part d ''TITLE1'', name_part d ''FIRSTNAME1'', name_part d ''LASTNAME1'']"

definition spec_website :: "(string \<times> json) list \<Rightarrow> string" where
  "spec_website d =
     ''https://www.dallascounty.org/government/jpcourts/'' @ py_str (precinct_number d) @ ''/''"

text \<open>\<open>p in s\<close>: the text \<open>p\<close> occurs in \<open>s\<close>.\<close>

fun occurs_in :: "string \<Rightarrow> string \<Rightarrow> bool" where
  "occurs_in p [] = (p = [])"
| "occurs_in p (c # s) = (take (length p) (c # s) = p \<or> occurs_in p s)"

text \<open>Example features with absent, null and padded attributes.\<close>

definition no_title_attributes :: "(string \<times> json) list" where
  "no_title_attributes =
     [(''PRECINCT'', JStr ''3''), (''FIRSTNAME1'', JStr ''Jane''), (''LASTNAME1'', JStr ''Doe''),
      (''ADDRESS1'', JStr ''100 Main St''), (''CITY1'', JStr ''Dallas''), (''STATE1'', JStr ''TX''),
      (''ZIP1'', JStr ''75201''), (''TEL1'', JStr ''214-555-0100'')]"

definition sparse_attributes :: "(string \<times> json) list" where
  "sparse_attributes =
     [(''FIRSTNAME1'', JStr ''Jane''), (''LASTNAME1'', JStr ''Doe''),
      (''ADDRESS1'', JStr ''100 Main St''), (''STATE1'', JStr ''TX'')]"

definition null_attributes :: "(string \<times> json) list" where
  "null_attributes =
     [(''PRECINCT'', JInt 3), (''TITLE1'', JNull), (''FIRSTNAME1'', JStr ''Jane''),
      (''LASTNAME1'', JStr ''Doe''), (''ADDRESS1'', JNull), (''CITY1'', JStr ''Dallas''),
      (''STATE1'', JStr ''TX''), (''ZIP1'', JNull), (''TEL1'', JNull)]"

definition padded_title_attributes :: "(string \<times> json) list" where
  "padded_title_attributes = [(''TITLE1'', JStr '' Judge'')]"

definition padded_precinct_attributes :: "(string \<times> json) list" where
  "padded_precinct_attributes =
     [(''PRECINCT'', JInt 12), (''TITLE1'', JStr ''  Judge''), (''FIRSTNAME1'', JStr []),
      (''LASTNAME1'', JStr ''Doe '')]"

definition null_city_attributes :: "(string \<times> json) list" where
  "null_city_attributes =
     [(''PRECINCT'', JStr ''3''), (''LASTNAME1'', JStr ''Doe''),
      (''ADDRESS1'', JStr ''100 Main St''), (''CITY1'', JNull), (''STATE1'', JNull),
      (''ZIP1'', JStr ''75201''), (''TEL1'', JStr ''214-555-0100'')]"

definition numeric_title_attributes :: "(string \<times> json) list" where
  "numeric_title_attributes = [(''TEL1'', JNull), (''TITLE1'', JInt 5)]"

subsection \<open>Successive submissions\<close>

text \<open>
  Between two submissions the program keeps nothing but the four entries, which the
  handler only reads. The services may keep state of their own (a request counter, a
  cache, a quota): the answer to a call can depend on that state, and every call moves
  it. A submission runs the handler against the services in their current state and
  leaves them in the state after the calls it made.
\<close>

record 's services =
  geocode_in :: "'s \<Rightarrow> string \<Rightarrow> geocode_outcome"
  requests_get_in :: "'s \<Rightarrow> string \<Rightarrow> (string \<times> string) list \<Rightarrow> http_outcome"
  served :: "'s \<Rightarrow> call \<Rightarrow> 's"

text \<open>
  The environment of one submission: the geocoder answers in the state \<open>s\<close>, the feature
  service in the state after the geocoding call.
\<close>

definition world_in :: "'s services \<Rightarrow> 's \<Rightarrow> form \<Rightarrow> world" where
  "world_in sv s f =
     \<lparr>geocode = geocode_in sv s,
      requests_get = requests_get_in sv (served sv s (GeocodeCall (address_of f)))\<rparr>"

definition submit :: "'s services \<Rightarrow> form \<times> 's \<Rightarrow> (form \<times> 's) \<times> call list \<times> outcome" where
  "submit sv st =
     (case st of
        (f, s) \<Rightarrow>
          (case get_precinct_info (world_in sv s f) f of
             (calls, out) \<Rightarrow> ((f, foldl (served sv) s calls), calls, out)))"

text \<open>
  Two services whose state counts the calls: one answers every call alike, the other
  geocodes only while no call has been made.
\<close>

definition counting_services :: "geocode_outcome \<Rightarrow> http_outcome \<Rightarrow> nat services" where
  "counting_services g h =
     \<lparr>geocode_in = (\<lambda>n a. g), requests_get_in = (\<lambda>n u p. h), served = (\<lambda>n c. Suc n)\<rparr>"

definition flaky_services :: "nat services" where
  "flaky_services =
     \<lparr>geocode_in = (\<lambda>n a. if n = 0 then Geocoded (Some example_location) else Geocoded None),
      requests_get_in =
        (\<lambda>n u p. ResponseJson
           (JObj [(''features'', JList [JObj [(''attributes'', JObj example_attributes)]])])),
      served = (\<lambda>n c. Suc n)\<rparr>"

section \<open>Properties\<close>

subsection \<open>Auxiliary facts\<close>

lemma py_strip_Nil_iff: "py_strip s = [] \<longleftrightarrow> blank s"
proof
  assume "py_strip s = []"
  then have all: "\<forall>x\<in>set (dropWhile py_isspace s). py_isspace x"
    by (simp add: py_strip_def dropWhile_eq_Nil_conv)
  have "dropWhile py_isspace s = []"
  proof (rule ccontr)
    assume ne: "dropWhile py_isspace s \<noteq> []"
    then have "\<not> py_isspace (hd (dropWhile py_isspace s))"
      by (rule hd_dropWhile)
    moreover from ne have "hd (dropWhile py_isspace s) \<in> set (dropWhile py_isspace s)"
      by simp
    ultimately show False using all by blast
  qed
  then show "blank s"
    by (simp add: blank_def dropWhile_eq_Nil_conv list_all_iff)
next
  assume "blank s"
  then have "dropWhile py_isspace s = []"
    by (simp add: blank_def dropWhile_eq_Nil_conv list_all_iff)
  then show "py_strip s = []"
    by (simp add: py_strip_def del: dropWhile_eq_Nil_conv)
qed

lemma results_cong:
  assumes "map_of d = map_of d'"
  shows "results d = results d'"
proof -
  have "py_get d = py_get d'"
    by (intro ext) (simp add: py_get_def assms)
  then show ?thesis
    by (simp only: results_def judge_full_name_def precinct_number_def precinct_text_def
        address_line_def city_arc_def state_arc_def zip_arc_def phone_def website_def)
qed

lemma valid_form_strip:
  assumes "valid_form f"
  shows "py_strip (street_entry f) \<noteq> []" "py_strip (city_entry f) \<noteq> []"
    "py_strip (state_entry f) \<noteq> []" "py_strip (zip_entry f) \<noteq> []"
  using assms by (simp_all add: valid_form_def py_strip_Nil_iff)

lemma get_precinct_info_valid:
  assumes "valid_form f"
  shows "get_precinct_info w f =
     (case query_of w f of
        (calls, Inl (ValueError msg)) \<Rightarrow> (calls, Showerror ''Lookup Error'' msg)
      | (calls, Inl e) \<Rightarrow> (calls, Uncaught e)
      | (calls, Inr precinct_info) \<Rightarrow>
          (case format_info precinct_info of
             Inl e \<Rightarrow> (calls, Uncaught e)
           | Inr shown \<Rightarrow> (calls, Showinfo ''Precinct Information'' shown)))"
  using valid_form_strip [OF assms]
  by (simp add: get_precinct_info_def query_of_def Let_def)

lemma query_of_no_location:
  assumes "geocode w (address_of f) = Geocoded None"
  shows "query_of w f =
     ([GeocodeCall (address_of f)], Inl (ValueError ''Address could not be geocoded.''))"
  using assms by (simp add: query_of_def query_precinct_def address_of_def Let_def)

lemma query_of_response:
  assumes "geocode w (address_of f) = Geocoded (Some loc)"
    and "requests_get w arcgis_url (params loc) = ResponseJson data"
  shows "query_of w f =
     ([GeocodeCall (address_of f), HttpGetCall arcgis_url (params loc)], first_attributes data)"
  using assms by (simp add: query_of_def query_precinct_def address_of_def Let_def)

lemma query_of_service_error:
  assumes "geocode w (address_of f) = GeocoderServiceError e"
  shows "query_of w f =
     ([GeocodeCall (address_of f)], Inl (ValueError (''Geocoding error: '' @ e)))"
  using assms by (simp add: query_of_def query_precinct_def address_of_def Let_def)

lemma query_of_located:
  assumes "geocode w (address_of f) = Geocoded (Some loc)"
  shows "query_of w f =
     (case requests_get w arcgis_url (params loc) of
        RequestException e \<Rightarrow>
          ([GeocodeCall (address_of f), HttpGetCall arcgis_url (params loc)],
           Inl (ValueError (''Error querying ArcGIS: '' @ e)))
      | ResponseJson data \<Rightarrow>
          ([GeocodeCall (address_of f), HttpGetCall arcgis_url (params loc)],
           first_attributes data))"
  using assms unfolding query_of_def query_precinct_def address_of_def
  by (simp add: Let_def split: http_outcome.splits)

lemma first_attributes_empty:
  assumes "map_of r ''features'' = Some (JList [])"
  shows "first_attributes (JObj r) = Inl (ValueError ''No precinct found.'')"
  using assms by (simp add: first_attributes_def py_get_def)

lemma first_attributes_no_key:
  assumes "map_of r ''features'' = None"
  shows "first_attributes (JObj r) = Inl (ValueError ''No precinct found.'')"
  using assms by (simp add: first_attributes_def py_get_def)

lemma first_attributes_first:
  assumes "map_of r ''features'' = Some (JList (JObj ft # rest))"
    and "map_of ft ''attributes'' = Some attrs"
  shows "first_attributes (JObj r) = Inr attrs"
  using assms by (simp add: first_attributes_def py_get_def)

text \<open>
  The handler asks the environment two things only: the geocoding of the composed address
  and, when that gives a location, the feature query at it.
\<close>

lemma get_precinct_info_same_answers:
  assumes "geocode w (address_of f) = geocode w' (address_of f)"
    and "\<forall>loc. geocode w (address_of f) = Geocoded (Some loc) \<longrightarrow>
           requests_get w arcgis_url (params loc) = requests_get w' arcgis_url (params loc)"
  shows "get_precinct_info w f = get_precinct_info w' f"
proof -
  have "query_of w f = query_of w' f"
  proof (cases "geocode w (address_of f)")
    case (GeocoderServiceError e)
    moreover from this assms(1) have "geocode w' (address_of f) = GeocoderServiceError e"
      by simp
    ultimately show ?thesis
      by (simp only: query_of_service_error)
  next
    case (Geocoded l)
    show ?thesis
    proof (cases l)
      case None
      with Geocoded have g: "geocode w (address_of f) = Geocoded None"
        by simp
      with assms(1) have "geocode w' (address_of f) = Geocoded None"
        by simp
      with g show ?thesis
        by (simp only: query_of_no_location)
    next
      case (Some loc)
      with Geocoded have g: "geocode w (address_of f) = Geocoded (Some loc)"
        by simp
      with assms(1) have g': "geocode w' (address_of f) = Geocoded (Some loc)"
        by simp
      from g assms(2) have
        "requests_get w arcgis_url (params loc) = requests_get w' arcgis_url (params loc)"
        by blast
      then show ?thesis
        by (simp only: query_of_located [OF g] query_of_located [OF g'])
    qed
  qed
  then show ?thesis
    by (simp add: get_precinct_info_def query_of_def Let_def)
qed

lemma shown_first_feature:
  assumes "valid_form f"
    and "geocode w (address_of f) = Geocoded (Some loc)"
    and "requests_get w arcgis_url (params loc) = ResponseJson (JObj r)"
    and "map_of r ''features'' = Some (JList (JObj ft # rest))"
    and "map_of ft ''attributes'' = Some (JObj d)"
    and "results d = Inr shown"
  shows "get_precinct_info w f =
     ([GeocodeCall (address_of f), HttpGetCall arcgis_url (params loc)],
      Showinfo ''Precinct Information'' shown)"
  using assms
  by (simp add: get_precinct_info_valid query_of_response first_attributes_first
      format_info_def)

lemma shown_results:
  assumes "valid_form f" and "query_of w f = (calls, Inr (JObj d))" and "results d = Inr shown"
  shows "get_precinct_info w f = (calls, Showinfo ''Precinct Information'' shown)"
  using assms by (simp add: get_precinct_info_valid format_info_def)

lemma world_in_answers:
  assumes "\<forall>s. geocode_in sv s (address_of f) = g"
    and "\<forall>s loc. g = Geocoded (Some loc) \<longrightarrow>
           requests_get_in sv s arcgis_url (params loc) = h"
  shows "get_precinct_info (world_in sv s f) f = get_precinct_info (mock_world g h) f"
  using assms
  by (intro get_precinct_info_same_answers) (simp_all add: world_in_def mock_world_def)

lemma submit_parts:
  "submit sv (f, s) =
     ((f, foldl (served sv) s (fst (get_precinct_info (world_in sv s f) f))),
      get_precinct_info (world_in sv s f) f)"
  by (simp add: submit_def split: prod.splits)

lemma valid_example_form: "valid_form example_form"
  by (simp add: valid_form_def example_form_def blank_def py_isspace_def)

lemma address_of_example_form: "address_of example_form = ''100 Main St, Dallas, TX 75201''"
  by (simp add: address_of_def example_form_def full_address_def py_strip_def py_isspace_def)

lemma name_item:
  assumes "joinable d k"
  shows "filter truthy [py_get d k (JStr [])] =
     (if name_part d k = [] then [] else [JStr (name_part d k)])"
proof (cases "map_of d k")
  case None
  then show ?thesis by (simp add: py_get_def name_part_def)
next
  case (Some v)
  with assms show ?thesis
    by (cases v) (auto simp: py_get_def name_part_def joinable_def)
qed

lemma filter3: "filter P [a, b, c] = filter P [a] @ filter P [b] @ filter P [c]"
  by simp

lemma judge_full_name_joinable:
  assumes "names_joinable d"
  shows "judge_full_name d = Inr (py_strip (spec_judge_name d))"
proof -
  from assms have j: "joinable d ''TITLE1''" "joinable d ''FIRSTNAME1''" "joinable d ''LASTNAME1''"
    by (simp_all add: names_joinable_def)
  have "filter truthy
      [py_get d ''TITLE1'' (JStr []), py_get d ''FIRSTNAME1'' (JStr []),
       py_get d ''LASTNAME1'' (JStr [])] =
     (if name_part d ''TITLE1'' = [] then [] else [JStr (name_part d ''TITLE1'')]) @
     (if name_part d ''FIRSTNAME1'' = [] then [] else [JStr (name_part d ''FIRSTNAME1'')]) @
     (if name_part d ''LASTNAME1'' = [] then [] else [JStr (name_part d ''LASTNAME1'')])"
    by (subst filter3) (simp only: name_item [OF j(1)] name_item [OF j(2)] name_item [OF j(3)])
  then show ?thesis
    by (simp add: judge_full_name_def spec_judge_name_def py_join_def)
qed

lemma results_joinable:
  assumes "names_joinable d"
  shows "results d =
     Inr (summary (precinct_text d) (judge_text (py_strip (spec_judge_name d)))
            (py_str (address_line d)) (py_str (city_arc d)) (py_str (state_arc d))
            (py_str (zip_arc d)) (py_str (phone d)) (website d))"
  by (simp add: results_def judge_full_name_joinable [OF assms])

text \<open>The join raises exactly when a name part is true and not a \<open>str\<close>.\<close>

lemma judge_full_name_fails:
  assumes "\<not> names_joinable d"
  shows "judge_full_name d = Inl TypeError"
  using assms
  by (auto simp: judge_full_name_def names_joinable_def joinable_def py_get_def py_join_def
      split: option.splits)

lemmas formatter_defs =
  results_def judge_full_name_def py_join_def py_get_def py_strip_def py_isspace_def
  precinct_number_def precinct_text_def judge_text_def address_line_def city_arc_def
  state_arc_def zip_arc_def phone_def website_def summary_def

subsection \<open>The formatter on the example feature\<close>

lemma results_example:
  "results example_attributes =
     Inr ''Precinct Number: 3\<newline>Judge: Judge Jane Doe\<newline>Address: 100 Main St, Dallas, TX 75201\<newline>Phone: 214-555-0100\<newline>Website: https://www.dallascounty.org/government/jpcourts/3/''"
  by (simp add: example_attributes_def results_def judge_full_name_def py_join_def py_get_def
      py_strip_def py_isspace_def precinct_number_def precinct_text_def judge_text_def
      address_line_def city_arc_def state_arc_def zip_arc_def phone_def website_def
      summary_def)

text \<open>
  C1. For the feature whose attributes are PRECINCT "3", TITLE1 "Judge", FIRSTNAME1 "Jane",
  LASTNAME1 "Doe", ADDRESS1 "100 Main St", CITY1 "Dallas", STATE1 "TX", ZIP1 "75201" and
  TEL1 "214-555-0100", in whatever order the dict holds them, the formatter returns exactly
  the five lines of the specification's example, and on valid input for which
  \<open>query_precinct\<close> returns this feature the handler shows them in the information dialog.
\<close>

theorem example_feature_summary:
  assumes "map_of d = map_of example_attributes"
  shows "format_info (JObj d) =
       Inr ''Precinct Number: 3\<newline>Judge: Judge Jane Doe\<newline>Address: 100 Main St, Dallas, TX 75201\<newline>Phone: 214-555-0100\<newline>Website: https://www.dallascounty.org/government/jpcourts/3/'' \<and>
     (\<forall>w f calls. valid_form f \<longrightarrow> query_of w f = (calls, Inr (JObj d)) \<longrightarrow>
        get_precinct_info w f =
          (calls, Showinfo ''Precinct Information''
             ''Precinct Number: 3\<newline>Judge: Judge Jane Doe\<newline>Address: 100 Main St, Dallas, TX 75201\<newline>Phone: 214-555-0100\<newline>Website: https://www.dallascounty.org/government/jpcourts/3/''))"
proof -
  have shown: "format_info (JObj d) =
       Inr ''Precinct Number: 3\<newline>Judge: Judge Jane Doe\<newline>Address: 100 Main St, Dallas, TX 75201\<newline>Phone: 214-555-0100\<newline>Website: https://www.dallascounty.org/government/jpcourts/3/''"
    using results_cong [OF assms] results_example by (simp add: format_info_def)
  then show ?thesis
    by (simp add: get_precinct_info_valid)
qed

theorem example_feature_summary_witness:
  "format_info (JObj (rev example_attributes)) =
       Inr ''Precinct Number: 3\<newline>Judge: Judge Jane Doe\<newline>Address: 100 Main St, Dallas, TX 75201\<newline>Phone: 214-555-0100\<newline>Website: https://www.dallascounty.org/government/jpcourts/3/'' \<and>
   get_precinct_info
     (mock_world (Geocoded (Some example_location))
        (example_response [JObj [(''attributes'', JObj (rev example_attributes))]]))
     example_form =
   ([GeocodeCall ''100 Main St, Dallas, TX 75201'',
     HttpGetCall arcgis_url (params example_location)],
    Showinfo ''Precinct Information''
      ''Precinct Number: 3\<newline>Judge: Judge Jane Doe\<newline>Address: 100 Main St, Dallas, TX 75201\<newline>Phone: 214-555-0100\<newline>Website: https://www.dallascounty.org/government/jpcourts/3/'')"
proof -
  let ?w = "mock_world (Geocoded (Some example_location))
        (example_response [JObj [(''attributes'', JObj (rev example_attributes))]])"
  have m: "map_of (rev example_attributes) = map_of example_attributes"
    by (rule ext) (simp add: example_attributes_def)
  have "query_of ?w example_form =
     ([GeocodeCall (address_of example_form), HttpGetCall arcgis_url (params example_location)],
      first_attributes
        (JObj [(''features'', JList [JObj [(''attributes'', JObj (rev example_attributes))]])]))"
    by (rule query_of_response) (simp_all add: mock_world_def example_response_def)
  then have q: "query_of ?w example_form =
     ([GeocodeCall ''100 Main St, Dallas, TX 75201'',
       HttpGetCall arcgis_url (params example_location)],
      Inr (JObj (rev example_attributes)))"
    by (simp add: address_of_example_form first_attributes_def py_get_def)
  from example_feature_summary [OF m] valid_example_form q show ?thesis
    by blast
qed

lemma example_shown:
  "get_precinct_info
     (mock_world (Geocoded (Some example_location))
        (example_response [JObj [(''attributes'', JObj example_attributes)]]))
     example_form =
   ([GeocodeCall ''100 Main St, Dallas, TX 75201'',
     HttpGetCall arcgis_url (params example_location)],
    Showinfo ''Precinct Information''
      ''Precinct Number: 3\<newline>Judge: Judge Jane Doe\<newline>Address: 100 Main St, Dallas, TX 75201\<newline>Phone: 214-555-0100\<newline>Website: https://www.dallascounty.org/government/jpcourts/3/'')"
proof -
  let ?w = "mock_world (Geocoded (Some example_location))
        (example_response [JObj [(''attributes'', JObj example_attributes)]])"
  have "query_of ?w example_form =
     ([GeocodeCall (address_of example_form), HttpGetCall arcgis_url (params example_location)],
      first_attributes (JObj [(''features'', JList [JObj [(''attributes'', JObj example_attributes)]])]))"
    by (rule query_of_response) (simp_all add: mock_world_def example_response_def)
  then show ?thesis
    by (simp add: get_precinct_info_valid valid_example_form address_of_example_form
        first_attributes_def py_get_def format_info_def results_example)
qed

subsection \<open>Validation\<close>

text \<open>
  C2. If at least one of the four fields is empty or holds only whitespace, the handler
  shows the "Input Error" dialog and makes no call at all: the trace of calls to the
  geocoder and to the feature service is empty.
\<close>

theorem blank_field_no_network:
  assumes "blank (street_entry f) \<or> blank (city_entry f) \<or> blank (state_entry f) \<or>
    blank (zip_entry f)"
  shows "get_precinct_info w f =
     ([], Showerror ''Input Error'' ''Please fill in all address fields.'')"
  using assms by (auto simp: get_precinct_info_def Let_def py_strip_Nil_iff)

theorem blank_field_no_network_witness:
  "get_precinct_info
     (mock_world (Geocoded (Some example_location)) (example_response []))
     blank_city_form =
   ([], Showerror ''Input Error'' ''Please fill in all address fields.'')"
  using blank_field_no_network
    [of blank_city_form "mock_world (Geocoded (Some example_location)) (example_response [])"]
  by (simp add: blank_city_form_def blank_def py_isspace_def)

subsection \<open>Geocoding failures\<close>

text \<open>
  C3. On valid input, if the geocoder returns no location, \<open>query_precinct\<close> raises
  "Address could not be geocoded.", the handler shows it in the "Lookup Error" dialog, and
  the only call made is the one to the geocoder: the feature service is not queried.
\<close>

theorem no_location_no_query:
  assumes "valid_form f" and "geocode w (address_of f) = Geocoded None"
  shows "query_of w f =
       ([GeocodeCall (address_of f)], Inl (ValueError ''Address could not be geocoded.'')) \<and>
     get_precinct_info w f =
       ([GeocodeCall (address_of f)],
        Showerror ''Lookup Error'' ''Address could not be geocoded.'')"
  using assms by (simp add: get_precinct_info_valid query_of_no_location)

theorem no_location_no_query_witness:
  "query_of (mock_world (Geocoded None) (example_response [])) example_form =
       ([GeocodeCall ''100 Main St, Dallas, TX 75201''],
        Inl (ValueError ''Address could not be geocoded.'')) \<and>
   get_precinct_info (mock_world (Geocoded None) (example_response [])) example_form =
       ([GeocodeCall ''100 Main St, Dallas, TX 75201''],
        Showerror ''Lookup Error'' ''Address could not be geocoded.'')"
  using no_location_no_query
    [of example_form "mock_world (Geocoded None) (example_response [])"]
  by (simp add: valid_example_form address_of_example_form mock_world_def)

subsection \<open>The feature-service response\<close>

text \<open>
  C4. If the response is an object whose \<open>features\<close> array is empty, \<open>query_precinct\<close>
  raises "No precinct found.", and the handler shows it in the "Lookup Error" dialog: no
  summary is produced.
\<close>

theorem empty_features_no_precinct:
  assumes "valid_form f"
    and "geocode w (address_of f) = Geocoded (Some loc)"
    and "requests_get w arcgis_url (params loc) = ResponseJson (JObj r)"
    and "map_of r ''features'' = Some (JList [])"
  shows "query_of w f =
       ([GeocodeCall (address_of f), HttpGetCall arcgis_url (params loc)],
        Inl (ValueError ''No precinct found.'')) \<and>
     get_precinct_info w f =
       ([GeocodeCall (address_of f), HttpGetCall arcgis_url (params loc)],
        Showerror ''Lookup Error'' ''No precinct found.'')"
  using assms
  by (simp add: get_precinct_info_valid query_of_response first_attributes_empty)

theorem empty_features_no_precinct_witness:
  "query_of (mock_world (Geocoded (Some example_location)) (example_response [])) example_form =
       ([GeocodeCall ''100 Main St, Dallas, TX 75201'',
         HttpGetCall arcgis_url (params example_location)],
        Inl (ValueError ''No precinct found.'')) \<and>
   get_precinct_info (mock_world (Geocoded (Some example_location)) (example_response []))
       example_form =
       ([GeocodeCall ''100 Main St, Dallas, TX 75201'',
         HttpGetCall arcgis_url (params example_location)],
        Showerror ''Lookup Error'' ''No precinct found.'')"
  using empty_features_no_precinct
    [of example_form "mock_world (Geocoded (Some example_location)) (example_response [])"
      example_location "[(''features'', JList [])]"]
  by (simp add: valid_example_form address_of_example_form mock_world_def example_response_def)

text \<open>
  C9. If the response is an object with no \<open>features\<close> key at all, the outcome is the one
  of an empty \<open>features\<close> array: "No precinct found.", not a query or parse error.
\<close>

theorem missing_features_no_precinct:
  assumes "valid_form f"
    and "geocode w (address_of f) = Geocoded (Some loc)"
    and "requests_get w arcgis_url (params loc) = ResponseJson (JObj r)"
    and "map_of r ''features'' = None"
  shows "query_of w f =
       ([GeocodeCall (address_of f), HttpGetCall arcgis_url (params loc)],
        Inl (ValueError ''No precinct found.'')) \<and>
     get_precinct_info w f =
       ([GeocodeCall (address_of f), HttpGetCall arcgis_url (params loc)],
        Showerror ''Lookup Error'' ''No precinct found.'') \<and>
     first_attributes (JObj r) = first_attributes (JObj [(''features'', JList [])])"
  using assms
  by (simp add: get_precinct_info_valid query_of_response first_attributes_no_key
      first_attributes_empty)

theorem missing_features_no_precinct_witness:
  "get_precinct_info
       (mock_world (Geocoded (Some example_location))
          (ResponseJson (JObj [(''error'', JObj [(''code'', JInt 400)])])))
       example_form =
       ([GeocodeCall ''100 Main St, Dallas, TX 75201'',
         HttpGetCall arcgis_url (params example_location)],
        Showerror ''Lookup Error'' ''No precinct found.'')"
  using missing_features_no_precinct
    [of example_form
      "mock_world (Geocoded (Some example_location))
          (ResponseJson (JObj [(''error'', JObj [(''code'', JInt 400)])]))"
      example_location "[(''error'', JObj [(''code'', JInt 400)])]"]
  by (simp add: valid_example_form address_of_example_form mock_world_def)

text \<open>
  C6. If the response is an object whose \<open>features\<close> array starts with a feature that has
  \<open>attributes\<close>, \<open>query_precinct\<close> returns exactly those attributes, whatever the
  later features are.
\<close>

theorem first_feature_attributes:
  assumes "geocode w (full_address street_address city state zip_code) = Geocoded (Some loc)"
    and "requests_get w arcgis_url (params loc) = ResponseJson (JObj r)"
    and "map_of r ''features'' = Some (JList (JObj ft # rest))"
    and "map_of ft ''attributes'' = Some attrs"
  shows "query_precinct w street_address city state zip_code =
     ([GeocodeCall (full_address street_address city state zip_code),
       HttpGetCall arcgis_url (params loc)],
      Inr attrs)"
  using assms by (simp add: query_precinct_def Let_def first_attributes_first)

theorem first_feature_attributes_witness:
  "query_precinct
     (mock_world (Geocoded (Some example_location))
        (example_response
           [JObj [(''attributes'', JObj example_attributes)],
            JObj [(''attributes'', JObj second_attributes)]]))
     ''100 Main St'' ''Dallas'' ''TX'' ''75201'' =
   ([GeocodeCall ''100 Main St, Dallas, TX 75201'',
     HttpGetCall arcgis_url (params example_location)],
    Inr (JObj example_attributes))"
  using first_feature_attributes
    [of "mock_world (Geocoded (Some example_location))
        (example_response
           [JObj [(''attributes'', JObj example_attributes)],
            JObj [(''attributes'', JObj second_attributes)]])"
      "''100 Main St''" "''Dallas''" "''TX''" "''75201''" example_location
      "[(''features'', JList [JObj [(''attributes'', JObj example_attributes)],
            JObj [(''attributes'', JObj second_attributes)]])]"
      "[(''attributes'', JObj example_attributes)]"
      "[JObj [(''attributes'', JObj second_attributes)]]"
      "JObj example_attributes"]
  by (simp add: mock_world_def example_response_def full_address_def)

subsection \<open>Two submissions in succession\<close>

text \<open>
  C8. Let the services answer the two requests of the form alike in every state they can
  be in (a deterministic mock): the geocoding of the composed address is always \<open>g\<close>,
  and, when \<open>g\<close> is a location, the feature query at it is always \<open>h\<close>. Then a first
  submission, and a second one made in the state the first has left the services in,
  make the same calls and show the same dialog; both are what the handler computes from
  the input and the two answers \<open>g\<close> and \<open>h\<close> alone; the entries are left as they
  were; and on valid input, when \<open>g\<close> is a location and \<open>h\<close> an object whose first
  feature has the attributes \<open>d\<close>, both submissions show the summary of \<open>d\<close>.
\<close>

theorem two_submissions_same_summary:
  assumes "\<forall>s. geocode_in sv s (address_of f) = g"
    and "\<forall>s loc. g = Geocoded (Some loc) \<longrightarrow>
           requests_get_in sv s arcgis_url (params loc) = h"
  shows "snd (submit sv (fst (submit sv (f, s0)))) = snd (submit sv (f, s0)) \<and>
     snd (submit sv (f, s0)) = get_precinct_info (mock_world g h) f \<and>
     fst (fst (submit sv (f, s0))) = f \<and>
     fst (fst (submit sv (fst (submit sv (f, s0))))) = f \<and>
     (valid_form f \<longrightarrow> g = Geocoded (Some loc) \<longrightarrow> h = ResponseJson (JObj r) \<longrightarrow>
      map_of r ''features'' = Some (JList (JObj ft # rest)) \<longrightarrow>
      map_of ft ''attributes'' = Some (JObj d) \<longrightarrow> results d = Inr shown \<longrightarrow>
        snd (submit sv (f, s0)) =
          ([GeocodeCall (address_of f), HttpGetCall arcgis_url (params loc)],
           Showinfo ''Precinct Information'' shown) \<and>
        snd (submit sv (fst (submit sv (f, s0)))) =
          ([GeocodeCall (address_of f), HttpGetCall arcgis_url (params loc)],
           Showinfo ''Precinct Information'' shown))"
proof -
  have pure: "get_precinct_info (world_in sv s f) f = get_precinct_info (mock_world g h) f"
    for s
    using assms by (rule world_in_answers)
  have first: "snd (submit sv (f, s0)) = get_precinct_info (mock_world g h) f"
    by (simp add: submit_parts pure)
  have state: "fst (submit sv (f, s0)) =
      (f, foldl (served sv) s0 (fst (get_precinct_info (mock_world g h) f)))"
    by (simp add: submit_parts pure)
  have second: "snd (submit sv (fst (submit sv (f, s0)))) =
      get_precinct_info (mock_world g h) f"
    by (simp add: state submit_parts pure)
  have entries: "fst (fst (submit sv (fst (submit sv (f, s0))))) = f"
    by (simp add: state submit_parts)
  have shown: "get_precinct_info (mock_world g h) f =
      ([GeocodeCall (address_of f), HttpGetCall arcgis_url (params loc)],
       Showinfo ''Precinct Information'' shown)"
    if "valid_form f" "g = Geocoded (Some loc)" "h = ResponseJson (JObj r)"
      "map_of r ''features'' = Some (JList (JObj ft # rest))"
      "map_of ft ''attributes'' = Some (JObj d)" "results d = Inr shown"
    using that by (intro shown_first_feature) (simp_all add: mock_world_def)
  have same: "snd (submit sv (fst (submit sv (f, s0)))) = snd (submit sv (f, s0))"
    by (simp only: first second)
  have kept: "fst (fst (submit sv (f, s0))) = f"
    by (simp add: state)
  have summary_shown:
    "valid_form f \<longrightarrow> g = Geocoded (Some loc) \<longrightarrow> h = ResponseJson (JObj r) \<longrightarrow>
      map_of r ''features'' = Some (JList (JObj ft # rest)) \<longrightarrow>
      map_of ft ''attributes'' = Some (JObj d) \<longrightarrow> results d = Inr shown \<longrightarrow>
        snd (submit sv (f, s0)) =
          ([GeocodeCall (address_of f), HttpGetCall arcgis_url (params loc)],
           Showinfo ''Precinct Information'' shown) \<and>
        snd (submit sv (fst (submit sv (f, s0)))) =
          ([GeocodeCall (address_of f), HttpGetCall arcgis_url (params loc)],
           Showinfo ''Precinct Information'' shown)"
    unfolding first second using shown by blast
  from same first kept entries summary_shown show ?thesis
    by blast
qed

theorem two_submissions_same_summary_witness:
  "submit
     (counting_services (Geocoded (Some example_location))
        (example_response [JObj [(''attributes'', JObj example_attributes)]]))
     (example_form, 0) =
   ((example_form, 2),
    [GeocodeCall ''100 Main St, Dallas, TX 75201'',
     HttpGetCall arcgis_url (params example_location)],
    Showinfo ''Precinct Information''
      ''Precinct Number: 3\<newline>Judge: Judge Jane Doe\<newline>Address: 100 Main St, Dallas, TX 75201\<newline>Phone: 214-555-0100\<newline>Website: https://www.dallascounty.org/government/jpcourts/3/'') \<and>
   submit
     (counting_services (Geocoded (Some example_location))
        (example_response [JObj [(''attributes'', JObj example_attributes)]]))
     (example_form, 2) =
   ((example_form, 4),
    [GeocodeCall ''100 Main St, Dallas, TX 75201'',
     HttpGetCall arcgis_url (params example_location)],
    Showinfo ''Precinct Information''
      ''Precinct Number: 3\<newline>Judge: Judge Jane Doe\<newline>Address: 100 Main St, Dallas, TX 75201\<newline>Phone: 214-555-0100\<newline>Website: https://www.dallascounty.org/government/jpcourts/3/'') \<and>
   submit (counting_services (Geocoded None) (example_response [])) (example_form, 0) =
   ((example_form, 1),
    [GeocodeCall ''100 Main St, Dallas, TX 75201''],
    Showerror ''Lookup Error'' ''Address could not be geocoded.'') \<and>
   submit (counting_services (Geocoded None) (example_response [])) (example_form, 1) =
   ((example_form, 2),
    [GeocodeCall ''100 Main St, Dallas, TX 75201''],
    Showerror ''Lookup Error'' ''Address could not be geocoded.'')"
proof -
  let ?sv = "counting_services (Geocoded (Some example_location))
        (example_response [JObj [(''attributes'', JObj example_attributes)]])"
  let ?nf = "counting_services (Geocoded None) (example_response [])"
  have det: "\<forall>s. geocode_in (counting_services g h) s (address_of example_form) = g"
    "\<forall>s loc. g = Geocoded (Some loc) \<longrightarrow>
       requests_get_in (counting_services g h) s arcgis_url (params loc) = h" for g h
    by (simp_all add: counting_services_def)
  have state: "fst (submit (counting_services g h) (example_form, n)) =
      (example_form, n + length (fst (snd (submit (counting_services g h) (example_form, n)))))"
    for g h n
  proof -
    have "foldl (served (counting_services g h)) m cs = m + length cs" for m cs
      by (induction cs arbitrary: m) (simp_all add: counting_services_def)
    then show ?thesis
      by (simp add: submit_parts)
  qed
  note found = two_submissions_same_summary [OF det, of "Geocoded (Some example_location)"
      "example_response [JObj [(''attributes'', JObj example_attributes)]]"]
  note lost = two_submissions_same_summary [OF det, of "Geocoded None" "example_response []"]
  have nf: "get_precinct_info (mock_world (Geocoded None) (example_response [])) example_form =
      ([GeocodeCall ''100 Main St, Dallas, TX 75201''],
       Showerror ''Lookup Error'' ''Address could not be geocoded.'')"
    using valid_example_form
    by (simp add: get_precinct_info_valid query_of_no_location mock_world_def
        address_of_example_form)
  have a: "snd (submit ?sv (example_form, n)) =
      ([GeocodeCall ''100 Main St, Dallas, TX 75201'',
        HttpGetCall arcgis_url (params example_location)],
       Showinfo ''Precinct Information''
         ''Precinct Number: 3\<newline>Judge: Judge Jane Doe\<newline>Address: 100 Main St, Dallas, TX 75201\<newline>Phone: 214-555-0100\<newline>Website: https://www.dallascounty.org/government/jpcourts/3/'')"
    for n
    using found [of n] by (simp add: example_shown)
  have b: "snd (submit ?nf (example_form, n)) =
      ([GeocodeCall ''100 Main St, Dallas, TX 75201''],
       Showerror ''Lookup Error'' ''Address could not be geocoded.'')" for n
    using lost [of n] by (simp add: nf)
  have "submit ?sv (example_form, n) = ((example_form, n + 2), snd (submit ?sv (example_form, n)))"
    for n
    using state [of "Geocoded (Some example_location)" _ n] a [of n]
    by (simp add: prod_eq_iff)
  moreover have "submit ?nf (example_form, n) =
      ((example_form, n + 1), snd (submit ?nf (example_form, n)))" for n
    using state [of "Geocoded None" _ n] b [of n]
    by (simp add: prod_eq_iff)
  ultimately show ?thesis
    using a b by (simp add: numeral_eq_Suc)
qed

text \<open>
  The hypothesis is needed: with a geocoder that answers in its first state only, the
  second submission shows an error where the first showed the summary.
\<close>

lemma state_dependent_answers_differ:
  "snd (snd (submit flaky_services (example_form, 0))) =
     Showinfo ''Precinct Information''
       ''Precinct Number: 3\<newline>Judge: Judge Jane Doe\<newline>Address: 100 Main St, Dallas, TX 75201\<newline>Phone: 214-555-0100\<newline>Website: https://www.dallascounty.org/government/jpcourts/3/'' \<and>
   snd (snd (submit flaky_services (fst (submit flaky_services (example_form, 0))))) =
     Showerror ''Lookup Error'' ''Address could not be geocoded.''"
proof -
  have first: "get_precinct_info (world_in flaky_services 0 example_form) example_form =
      get_precinct_info
        (mock_world (Geocoded (Some example_location))
           (example_response [JObj [(''attributes'', JObj example_attributes)]]))
        example_form"
    by (rule get_precinct_info_same_answers)
      (simp_all add: world_in_def flaky_services_def mock_world_def example_response_def)
  have later: "get_precinct_info (world_in flaky_services (Suc n) example_form) example_form =
      ([GeocodeCall (address_of example_form)],
       Showerror ''Lookup Error'' ''Address could not be geocoded.'')" for n
    using valid_example_form
    by (simp add: get_precinct_info_valid query_of_no_location world_in_def
        flaky_services_def)
  have calls: "get_precinct_info (world_in flaky_services 0 example_form) example_form =
      ([GeocodeCall ''100 Main St, Dallas, TX 75201'',
        HttpGetCall arcgis_url (params example_location)],
       Showinfo ''Precinct Information''
         ''Precinct Number: 3\<newline>Judge: Judge Jane Doe\<newline>Address: 100 Main St, Dallas, TX 75201\<newline>Phone: 214-555-0100\<newline>Website: https://www.dallascounty.org/government/jpcourts/3/'')"
    using first by (simp only: example_shown)
  have "served flaky_services n c = Suc n" for n c
    by (simp add: flaky_services_def)
  then have "fst (submit flaky_services (example_form, 0)) = (example_form, Suc (Suc 0))"
    by (simp add: submit_parts calls)
  then show ?thesis
    by (simp add: submit_parts calls later)
qed

subsection \<open>Absent and null attributes\<close>

text \<open>
  C5 (amended). Let each of TITLE1, FIRSTNAME1 and LASTNAME1 be absent, a \<open>str\<close> or
  false. Then the formatter returns a summary, and an absent attribute is rendered so:
  ADDRESS1, CITY1, STATE1, ZIP1 and TEL1 by their own placeholders "Address Not Found",
  "City Not Found", "State Not Found", "ZIP Not Found" and "Phone Not Found"; PRECINCT by
  "Not Found" on the first line and "Website Not Found" on the last; a name part by
  nothing at all (the name is joined from the other two), and the judge line reads
  "Not Found" when all three are absent.
\<close>

theorem absent_fields_placeholders:
  assumes "names_joinable d"
  shows "results d =
       Inr (summary (precinct_text d) (judge_text (py_strip (spec_judge_name d)))
              (py_str (address_line d)) (py_str (city_arc d)) (py_str (state_arc d))
              (py_str (zip_arc d)) (py_str (phone d)) (website d)) \<and>
     (map_of d ''ADDRESS1'' = None \<longrightarrow> py_str (address_line d) = ''Address Not Found'') \<and>
     (map_of d ''CITY1'' = None \<longrightarrow> py_str (city_arc d) = ''City Not Found'') \<and>
     (map_of d ''STATE1'' = None \<longrightarrow> py_str (state_arc d) = ''State Not Found'') \<and>
     (map_of d ''ZIP1'' = None \<longrightarrow> py_str (zip_arc d) = ''ZIP Not Found'') \<and>
     (map_of d ''TEL1'' = None \<longrightarrow> py_str (phone d) = ''Phone Not Found'') \<and>
     (map_of d ''PRECINCT'' = None \<longrightarrow>
        precinct_text d = ''Not Found'' \<and> website d = ''Website Not Found'') \<and>
     (map_of d ''TITLE1'' = None \<longrightarrow>
        spec_judge_name d = space_join [name_part d ''FIRSTNAME1'', name_part d ''LASTNAME1'']) \<and>
     (map_of d ''FIRSTNAME1'' = None \<longrightarrow>
        spec_judge_name d = space_join [name_part d ''TITLE1'', name_part d ''LASTNAME1'']) \<and>
     (map_of d ''LASTNAME1'' = None \<longrightarrow>
        spec_judge_name d = space_join [name_part d ''TITLE1'', name_part d ''FIRSTNAME1'']) \<and>
     (map_of d ''TITLE1'' = None \<and> map_of d ''FIRSTNAME1'' = None \<and>
      map_of d ''LASTNAME1'' = None \<longrightarrow>
        judge_text (py_strip (spec_judge_name d)) = ''Not Found'')"
proof -
  have "py_strip [] = []"
    by (simp add: py_strip_def)
  then show ?thesis
    by (simp add: results_joinable [OF assms] address_line_def city_arc_def state_arc_def
        zip_arc_def phone_def precinct_text_def precinct_number_def website_def py_get_def
        spec_judge_name_def name_part_def judge_text_def)
qed

theorem absent_fields_placeholders_witness:
  "results sparse_attributes =
     Inr ''Precinct Number: Not Found\<newline>Judge: Jane Doe\<newline>Address: 100 Main St, City Not Found, TX ZIP Not Found\<newline>Phone: Phone Not Found\<newline>Website: Website Not Found'' \<and>
   py_str (phone sparse_attributes) = ''Phone Not Found'' \<and>
   py_str (city_arc sparse_attributes) = ''City Not Found'' \<and>
   py_str (zip_arc sparse_attributes) = ''ZIP Not Found'' \<and>
   precinct_text sparse_attributes = ''Not Found'' \<and>
   website sparse_attributes = ''Website Not Found''"
proof -
  have j: "names_joinable sparse_attributes"
    by (simp add: sparse_attributes_def names_joinable_def joinable_def)
  have absent: "map_of sparse_attributes ''TEL1'' = None"
    "map_of sparse_attributes ''CITY1'' = None"
    "map_of sparse_attributes ''ZIP1'' = None"
    "map_of sparse_attributes ''PRECINCT'' = None"
    by (simp_all add: sparse_attributes_def)
  note t = absent_fields_placeholders [OF j]
  from t absent have slots:
    "py_str (phone sparse_attributes) = ''Phone Not Found''"
    "py_str (city_arc sparse_attributes) = ''City Not Found''"
    "py_str (zip_arc sparse_attributes) = ''ZIP Not Found''"
    "precinct_text sparse_attributes = ''Not Found''"
    "website sparse_attributes = ''Website Not Found''"
    by blast+
  have rest:
    "judge_text (py_strip (spec_judge_name sparse_attributes)) = ''Jane Doe''"
    "py_str (address_line sparse_attributes) = ''100 Main St''"
    "py_str (state_arc sparse_attributes) = ''TX''"
    by (simp_all add: sparse_attributes_def spec_judge_name_def name_part_def judge_text_def
        py_strip_def py_isspace_def address_line_def state_arc_def py_get_def)
  from t have "results sparse_attributes =
       Inr (summary (precinct_text sparse_attributes)
              (judge_text (py_strip (spec_judge_name sparse_attributes)))
              (py_str (address_line sparse_attributes)) (py_str (city_arc sparse_attributes))
              (py_str (state_arc sparse_attributes)) (py_str (zip_arc sparse_attributes))
              (py_str (phone sparse_attributes)) (website sparse_attributes))"
    by blast
  then have "results sparse_attributes =
     Inr ''Precinct Number: Not Found\<newline>Judge: Jane Doe\<newline>Address: 100 Main St, City Not Found, TX ZIP Not Found\<newline>Phone: Phone Not Found\<newline>Website: Website Not Found''"
    by (simp add: slots rest summary_def)
  with slots show ?thesis
    by simp
qed

text \<open>
  A counterexample to C5 as it is written. With TITLE1 alone absent, the summary holds no
  placeholder at all; with every attribute absent, the precinct and judge lines read the
  bare "Not Found"; and a TITLE1 that is the number 5 makes the formatter raise.
\<close>

theorem absent_title_no_placeholder:
  "map_of no_title_attributes ''TITLE1'' = None \<and>
   results no_title_attributes =
     Inr ''Precinct Number: 3\<newline>Judge: Jane Doe\<newline>Address: 100 Main St, Dallas, TX 75201\<newline>Phone: 214-555-0100\<newline>Website: https://www.dallascounty.org/government/jpcourts/3/'' \<and>
   \<not> occurs_in ''Not Found''
     ''Precinct Number: 3\<newline>Judge: Jane Doe\<newline>Address: 100 Main St, Dallas, TX 75201\<newline>Phone: 214-555-0100\<newline>Website: https://www.dallascounty.org/government/jpcourts/3/'' \<and>
   results [] =
     Inr ''Precinct Number: Not Found\<newline>Judge: Not Found\<newline>Address: Address Not Found, City Not Found, State Not Found ZIP Not Found\<newline>Phone: Phone Not Found\<newline>Website: Website Not Found'' \<and>
   results [(''TITLE1'', JInt 5)] = Inl TypeError"
  by (simp add: no_title_attributes_def formatter_defs)

text \<open>
  C10 (amended). Let each of TITLE1, FIRSTNAME1 and LASTNAME1 be absent, a \<open>str\<close> or
  false. Then the formatter returns the five lines below, in which a field among ADDRESS1,
  CITY1, STATE1, ZIP1 and TEL1 that is present and bound to null reads "None", not its
  placeholder.
\<close>

theorem null_field_renders_None:
  assumes "names_joinable d"
  shows "results d =
       Inr (''Precinct Number: '' @ precinct_text d @ ''\<newline>'' @
            ''Judge: '' @ judge_text (py_strip (spec_judge_name d)) @ ''\<newline>'' @
            ''Address: '' @ py_str (address_line d) @ '', '' @ py_str (city_arc d) @ '', '' @
              py_str (state_arc d) @ '' '' @ py_str (zip_arc d) @ ''\<newline>'' @
            ''Phone: '' @ py_str (phone d) @ ''\<newline>'' @
            ''Website: '' @ website d) \<and>
     (map_of d ''ADDRESS1'' = Some JNull \<longrightarrow> py_str (address_line d) = ''None'') \<and>
     (map_of d ''CITY1'' = Some JNull \<longrightarrow> py_str (city_arc d) = ''None'') \<and>
     (map_of d ''STATE1'' = Some JNull \<longrightarrow> py_str (state_arc d) = ''None'') \<and>
     (map_of d ''ZIP1'' = Some JNull \<longrightarrow> py_str (zip_arc d) = ''None'') \<and>
     (map_of d ''TEL1'' = Some JNull \<longrightarrow> py_str (phone d) = ''None'')"
  by (simp add: results_joinable [OF assms] summary_def address_line_def city_arc_def
      state_arc_def zip_arc_def phone_def py_get_def)

theorem null_field_renders_None_witness:
  "results null_attributes =
     Inr ''Precinct Number: 3\<newline>Judge: Jane Doe\<newline>Address: None, Dallas, TX None\<newline>Phone: None\<newline>Website: https://www.dallascounty.org/government/jpcourts/3/'' \<and>
   results null_city_attributes =
     Inr ''Precinct Number: 3\<newline>Judge: Doe\<newline>Address: 100 Main St, None, None 75201\<newline>Phone: 214-555-0100\<newline>Website: https://www.dallascounty.org/government/jpcourts/3/''"
proof -
  have j: "names_joinable null_attributes" "names_joinable null_city_attributes"
    by (simp_all add: null_attributes_def null_city_attributes_def names_joinable_def
        joinable_def)
  have three: "str_int 3 = ''3''"
    by (simp add: str_int_def str_nat.simps [of 3] dec_digit_def)
  have nulls: "map_of null_attributes ''ADDRESS1'' = Some JNull"
    "map_of null_attributes ''ZIP1'' = Some JNull"
    "map_of null_attributes ''TEL1'' = Some JNull"
    "map_of null_city_attributes ''CITY1'' = Some JNull"
    "map_of null_city_attributes ''STATE1'' = Some JNull"
    by (simp_all add: null_attributes_def null_city_attributes_def)
  note t = null_field_renders_None [OF j(1)]
  note u = null_field_renders_None [OF j(2)]
  from t u nulls have slots:
    "py_str (address_line null_attributes) = ''None''"
    "py_str (zip_arc null_attributes) = ''None''"
    "py_str (phone null_attributes) = ''None''"
    "py_str (city_arc null_city_attributes) = ''None''"
    "py_str (state_arc null_city_attributes) = ''None''"
    by blast+
  have rest:
    "precinct_text null_attributes = ''3''"
    "judge_text (py_strip (spec_judge_name null_attributes)) = ''Jane Doe''"
    "py_str (city_arc null_attributes) = ''Dallas''"
    "py_str (state_arc null_attributes) = ''TX''"
    "website null_attributes = ''https://www.dallascounty.org/government/jpcourts/3/''"
    by (simp_all add: null_attributes_def spec_judge_name_def name_part_def judge_text_def
        py_strip_def py_isspace_def city_arc_def state_arc_def py_get_def precinct_text_def
        precinct_number_def website_def three)
  have rest':
    "precinct_text null_city_attributes = ''3''"
    "judge_text (py_strip (spec_judge_name null_city_attributes)) = ''Doe''"
    "py_str (address_line null_city_attributes) = ''100 Main St''"
    "py_str (zip_arc null_city_attributes) = ''75201''"
    "py_str (phone null_city_attributes) = ''214-555-0100''"
    "website null_city_attributes = ''https://www.dallascounty.org/government/jpcourts/3/''"
    by (simp_all add: null_city_attributes_def spec_judge_name_def name_part_def
        judge_text_def py_strip_def py_isspace_def address_line_def zip_arc_def phone_def
        py_get_def precinct_text_def precinct_number_def website_def)
  from t [THEN conjunct1] u [THEN conjunct1] show ?thesis
    by (simp add: slots rest rest')
qed

text \<open>
  A counterexample to C10 as it is written. With TEL1 null and the number 5 for TITLE1, the
  join raises \<open>TypeError\<close>, which nothing catches: no summary is shown, so no "None".
\<close>

theorem null_field_type_error:
  "map_of numeric_title_attributes ''TEL1'' = Some JNull \<and>
   results numeric_title_attributes = Inl TypeError \<and>
   format_info (JObj numeric_title_attributes) = Inl TypeError \<and>
   get_precinct_info
     (mock_world (Geocoded (Some example_location))
        (example_response [JObj [(''attributes'', JObj numeric_title_attributes)]]))
     example_form =
   ([GeocodeCall ''100 Main St, Dallas, TX 75201'',
     HttpGetCall arcgis_url (params example_location)],
    Uncaught TypeError)"
proof -
  let ?w = "mock_world (Geocoded (Some example_location))
        (example_response [JObj [(''attributes'', JObj numeric_title_attributes)]])"
  have r: "results numeric_title_attributes = Inl TypeError"
    by (simp add: numeric_title_attributes_def results_def judge_full_name_def py_join_def
        py_get_def)
  have "query_of ?w example_form =
     ([GeocodeCall (address_of example_form), HttpGetCall arcgis_url (params example_location)],
      first_attributes
        (JObj [(''features'', JList [JObj [(''attributes'', JObj numeric_title_attributes)]])]))"
    by (rule query_of_response) (simp_all add: mock_world_def example_response_def)
  then have "get_precinct_info ?w example_form =
     ([GeocodeCall ''100 Main St, Dallas, TX 75201'',
       HttpGetCall arcgis_url (params example_location)],
      Uncaught TypeError)"
    by (simp add: get_precinct_info_valid valid_example_form address_of_example_form
        first_attributes_def py_get_def format_info_def r)
  with r show ?thesis
    by (simp add: format_info_def) (simp add: numeric_title_attributes_def)
qed

subsection \<open>The judge's name and the website\<close>

text \<open>
  C7 (amended). Let each of TITLE1, FIRSTNAME1 and LASTNAME1 be absent, a \<open>str\<close> or
  false. Then the name is the space-join of the three parts with empty parts skipped,
  stripped of surrounding whitespace; the judge line of the summary shows it, or
  "Not Found" when it is empty; the website line shows the URL with the precinct number
  when PRECINCT is present and not null, and "Website Not Found" otherwise; and this
  summary is what the handler shows when \<open>query_precinct\<close> returns the mapping.
\<close>

theorem judge_name_and_website:
  assumes "names_joinable d"
  shows "judge_full_name d = Inr (py_strip (spec_judge_name d)) \<and>
     website d =
       (case map_of d ''PRECINCT'' of
          None \<Rightarrow> ''Website Not Found''
        | Some JNull \<Rightarrow> ''Website Not Found''
        | Some v \<Rightarrow> spec_website d) \<and>
     results d =
       Inr (''Precinct Number: '' @ precinct_text d @ ''\<newline>'' @
            ''Judge: '' @
              (if py_strip (spec_judge_name d) = [] then ''Not Found''
               else py_strip (spec_judge_name d)) @ ''\<newline>'' @
            ''Address: '' @ py_str (address_line d) @ '', '' @ py_str (city_arc d) @ '', '' @
              py_str (state_arc d) @ '' '' @ py_str (zip_arc d) @ ''\<newline>'' @
            ''Phone: '' @ py_str (phone d) @ ''\<newline>'' @
            ''Website: '' @
              (case map_of d ''PRECINCT'' of
                 None \<Rightarrow> ''Website Not Found''
               | Some JNull \<Rightarrow> ''Website Not Found''
               | Some v \<Rightarrow> spec_website d)) \<and>
     (\<forall>w f calls shown. valid_form f \<longrightarrow> query_of w f = (calls, Inr (JObj d)) \<longrightarrow>
        results d = Inr shown \<longrightarrow>
        get_precinct_info w f = (calls, Showinfo ''Precinct Information'' shown))"
proof -
  have site: "website d =
       (case map_of d ''PRECINCT'' of
          None \<Rightarrow> ''Website Not Found''
        | Some JNull \<Rightarrow> ''Website Not Found''
        | Some v \<Rightarrow> spec_website d)"
    by (simp add: website_def spec_website_def precinct_number_def py_get_def
        split: option.splits json.splits)
  have name: "judge_full_name d = Inr (py_strip (spec_judge_name d))"
    using assms by (rule judge_full_name_joinable)
  have lines: "results d =
       Inr (''Precinct Number: '' @ precinct_text d @ ''\<newline>'' @
            ''Judge: '' @
              (if py_strip (spec_judge_name d) = [] then ''Not Found''
               else py_strip (spec_judge_name d)) @ ''\<newline>'' @
            ''Address: '' @ py_str (address_line d) @ '', '' @ py_str (city_arc d) @ '', '' @
              py_str (state_arc d) @ '' '' @ py_str (zip_arc d) @ ''\<newline>'' @
            ''Phone: '' @ py_str (phone d) @ ''\<newline>'' @
            ''Website: '' @ website d)"
    by (simp add: results_joinable [OF assms] summary_def judge_text_def)
  have dialog: "\<forall>w f calls shown. valid_form f \<longrightarrow> query_of w f = (calls, Inr (JObj d)) \<longrightarrow>
        results d = Inr shown \<longrightarrow>
        get_precinct_info w f = (calls, Showinfo ''Precinct Information'' shown)"
    by (blast intro: shown_results)
  from lines have lines': "results d =
       Inr (''Precinct Number: '' @ precinct_text d @ ''\<newline>'' @
            ''Judge: '' @
              (if py_strip (spec_judge_name d) = [] then ''Not Found''
               else py_strip (spec_judge_name d)) @ ''\<newline>'' @
            ''Address: '' @ py_str (address_line d) @ '', '' @ py_str (city_arc d) @ '', '' @
              py_str (state_arc d) @ '' '' @ py_str (zip_arc d) @ ''\<newline>'' @
            ''Phone: '' @ py_str (phone d) @ ''\<newline>'' @
            ''Website: '' @
              (case map_of d ''PRECINCT'' of
                 None \<Rightarrow> ''Website Not Found''
               | Some JNull \<Rightarrow> ''Website Not Found''
               | Some v \<Rightarrow> spec_website d))"
    by (simp only: site [symmetric])
  from name site lines' dialog show ?thesis
    by blast
qed

theorem judge_name_and_website_witness:
  "results example_attributes =
     Inr ''Precinct Number: 3\<newline>Judge: Judge Jane Doe\<newline>Address: 100 Main St, Dallas, TX 75201\<newline>Phone: 214-555-0100\<newline>Website: https://www.dallascounty.org/government/jpcourts/3/'' \<and>
   results padded_precinct_attributes =
     Inr ''Precinct Number: 12\<newline>Judge: Judge Doe\<newline>Address: Address Not Found, City Not Found, State Not Found ZIP Not Found\<newline>Phone: Phone Not Found\<newline>Website: https://www.dallascounty.org/government/jpcourts/12/'' \<and>
   get_precinct_info
     (mock_world (Geocoded (Some example_location))
        (example_response [JObj [(''attributes'', JObj padded_precinct_attributes)]]))
     example_form =
   ([GeocodeCall ''100 Main St, Dallas, TX 75201'',
     HttpGetCall arcgis_url (params example_location)],
    Showinfo ''Precinct Information''
      ''Precinct Number: 12\<newline>Judge: Judge Doe\<newline>Address: Address Not Found, City Not Found, State Not Found ZIP Not Found\<newline>Phone: Phone Not Found\<newline>Website: https://www.dallascounty.org/government/jpcourts/12/'')"
proof -
  let ?w = "mock_world (Geocoded (Some example_location))
        (example_response [JObj [(''attributes'', JObj padded_precinct_attributes)]])"
  have j: "names_joinable example_attributes" "names_joinable padded_precinct_attributes"
    by (simp_all add: example_attributes_def padded_precinct_attributes_def
        names_joinable_def joinable_def)
  note t = judge_name_and_website [OF j(1)]
  note u = judge_name_and_website [OF j(2)]
  have twelve: "str_int 12 = ''12''"
    by (simp add: str_int_def str_nat.simps [of 12] str_nat.simps [of "Suc 0"] dec_digit_def)
  have e: "results example_attributes =
     Inr ''Precinct Number: 3\<newline>Judge: Judge Jane Doe\<newline>Address: 100 Main St, Dallas, TX 75201\<newline>Phone: 214-555-0100\<newline>Website: https://www.dallascounty.org/government/jpcourts/3/''"
    using t [THEN conjunct2, THEN conjunct2, THEN conjunct1]
    by (simp add: example_attributes_def spec_judge_name_def name_part_def py_strip_def
        py_isspace_def spec_website_def precinct_text_def precinct_number_def
        address_line_def city_arc_def state_arc_def zip_arc_def phone_def py_get_def)
  have p: "results padded_precinct_attributes =
     Inr ''Precinct Number: 12\<newline>Judge: Judge Doe\<newline>Address: Address Not Found, City Not Found, State Not Found ZIP Not Found\<newline>Phone: Phone Not Found\<newline>Website: https://www.dallascounty.org/government/jpcourts/12/''"
    using u [THEN conjunct2, THEN conjunct2, THEN conjunct1]
    by (simp add: padded_precinct_attributes_def spec_judge_name_def name_part_def
        py_strip_def py_isspace_def spec_website_def precinct_text_def precinct_number_def
        address_line_def city_arc_def state_arc_def zip_arc_def phone_def py_get_def twelve)
  have "query_of ?w example_form =
     ([GeocodeCall (address_of example_form), HttpGetCall arcgis_url (params example_location)],
      first_attributes
        (JObj [(''features'',
                JList [JObj [(''attributes'', JObj padded_precinct_attributes)]])]))"
    by (rule query_of_response) (simp_all add: mock_world_def example_response_def)
  then have q: "query_of ?w example_form =
     ([GeocodeCall ''100 Main St, Dallas, TX 75201'',
       HttpGetCall arcgis_url (params example_location)],
      Inr (JObj padded_precinct_attributes))"
    by (simp add: address_of_example_form first_attributes_def py_get_def)
  from u [THEN conjunct2, THEN conjunct2, THEN conjunct2] valid_example_form q p
  have "get_precinct_info ?w example_form =
   ([GeocodeCall ''100 Main St, Dallas, TX 75201'',
     HttpGetCall arcgis_url (params example_location)],
    Showinfo ''Precinct Information''
      ''Precinct Number: 12\<newline>Judge: Judge Doe\<newline>Address: Address Not Found, City Not Found, State Not Found ZIP Not Found\<newline>Phone: Phone Not Found\<newline>Website: https://www.dallascounty.org/government/jpcourts/12/'')"
    by blast
  with e p show ?thesis
    by blast
qed

text \<open>
  A counterexample to C7 as it is written. A title with a leading space is stripped, so the
  judge line is not the plain space-join; without PRECINCT the website line is
  "Website Not Found", not a URL; with no name part the judge line reads "Not Found"; and
  a TITLE1 that is the number 5 makes the join raise, so that no line is shown at all.
\<close>

theorem judge_name_website_counterexample:
  "results padded_title_attributes =
     Inr ''Precinct Number: Not Found\<newline>Judge: Judge\<newline>Address: Address Not Found, City Not Found, State Not Found ZIP Not Found\<newline>Phone: Phone Not Found\<newline>Website: Website Not Found'' \<and>
   spec_judge_name padded_title_attributes = '' Judge'' \<and>
   spec_website padded_title_attributes =
     ''https://www.dallascounty.org/government/jpcourts/None/'' \<and>
   results padded_title_attributes \<noteq>
     Inr (''Precinct Number: Not Found\<newline>Judge: '' @
          spec_judge_name padded_title_attributes @
          ''\<newline>Address: Address Not Found, City Not Found, State Not Found ZIP Not Found\<newline>Phone: Phone Not Found\<newline>Website: '' @
          spec_website padded_title_attributes) \<and>
   judge_full_name padded_title_attributes = Inr ''Judge'' \<and>
   judge_full_name padded_title_attributes \<noteq> Inr (spec_judge_name padded_title_attributes) \<and>
   website padded_title_attributes = ''Website Not Found'' \<and>
   website padded_title_attributes \<noteq> spec_website padded_title_attributes \<and>
   results [] =
     Inr ''Precinct Number: Not Found\<newline>Judge: Not Found\<newline>Address: Address Not Found, City Not Found, State Not Found ZIP Not Found\<newline>Phone: Phone Not Found\<newline>Website: Website Not Found'' \<and>
   spec_judge_name [] = [] \<and>
   results [(''TITLE1'', JInt 5)] = Inl TypeError"
  by (simp add: padded_title_attributes_def formatter_defs spec_judge_name_def name_part_def
      spec_website_def)

end
